theory Spec2Isabelle
  imports Complex_Main "HOL-Library.Multiset" "HOL-Library.Sublist"
begin

section \<open>Python strings\<close>

text \<open>
  A Python \<open>str\<close> is a sequence of Unicode code points, so it is modelled as a list of
  naturals (the resume text may hold an en dash, which no 8-bit character can carry).
  \<open>py\<close> reads an ASCII literal as its code points.
\<close>

type_synonym pystr = "nat list"

abbreviation py :: "string \<Rightarrow> pystr" where
  "py s \<equiv> map of_char s"

text \<open>
  \<open>str.lower\<close>: the ASCII capitals are mapped to their small letters; the other code
  points are left as they are.
\<close>

definition lower_cp :: "nat \<Rightarrow> nat" where
  "lower_cp c = (if 65 \<le> c \<and> c \<le> 90 then c + 32 else c)"

definition lower :: "pystr \<Rightarrow> pystr" where
  "lower s = map lower_cp s"

text \<open>The code points that \<open>str.isspace\<close>, \<open>str.strip\<close> and the regex class \<open>\s\<close> accept.\<close>

definition is_space :: "nat \<Rightarrow> bool" where
  "is_space c = ((9 \<le> c \<and> c \<le> 13) \<or> (28 \<le> c \<and> c \<le> 32) \<or> c = 133 \<or> c = 160
     \<or> c = 5760 \<or> (8192 \<le> c \<and> c \<le> 8202) \<or> c = 8232 \<or> c = 8233 \<or> c = 8239
     \<or> c = 8287 \<or> c = 12288)"

definition strip :: "pystr \<Rightarrow> pystr" where
  "strip s = rev (dropWhile is_space (rev (dropWhile is_space s)))"

text \<open>\<open>s.startswith(p)\<close> and the substring test \<open>sub in s\<close>.\<close>

fun startswith :: "pystr \<Rightarrow> pystr \<Rightarrow> bool" where
  "startswith s [] = True"
| "startswith [] (p # ps) = False"
| "startswith (c # cs) (p # ps) = (c = p \<and> startswith cs ps)"

fun isin :: "pystr \<Rightarrow> pystr \<Rightarrow> bool" where
  "isin sub [] = (sub = [])"
| "isin sub (c # cs) = (startswith (c # cs) sub \<or> isin sub cs)"

text \<open>\<open>any(kw in text for kw in kws)\<close>.\<close>

definition any_in :: "pystr list \<Rightarrow> pystr \<Rightarrow> bool" where
  "any_in kws text = list_ex (\<lambda>kw. isin kw text) kws"

section \<open>Errors\<close>

text \<open>
  The exceptions the modelled code can meet: the \<open>ImportError\<close> that \<open>scrape_jobspy\<close>
  handles on its own, the \<open>re.error\<close> of a pattern that does not compile, and any other
  \<open>Exception\<close> with its message.
\<close>

datatype error = ImportError | ReError pystr | OtherError pystr

text \<open>Sequencing of calls that may raise: the first exception ends the computation.\<close>

definition and_then :: "error + 'a \<Rightarrow> ('a \<Rightarrow> error + 'b) \<Rightarrow> error + 'b" where
  "and_then r f = (case r of Inl e \<Rightarrow> Inl e | Inr x \<Rightarrow> f x)"

section \<open>Regular expressions of the source\<close>


definition is_word :: "nat \<Rightarrow> bool" where
  "is_word c = ((48 \<le> c \<and> c \<le> 57) \<or> (65 \<le> c \<and> c \<le> 90) \<or> c = 95 \<or> (97 \<le> c \<and> c \<le> 122))"

text \<open>
  The regular expressions that the source writes as literals, as terms: a literal string,
  one code point of a class, the greedy \<open>*\<close> and \<open>+\<close> of a class, the greedy
  \<open>?\<close>, sequence, alternation, a capturing group and the anchor \<open>\b\<close>. (A
  non-capturing group is the expression inside it.)
\<close>

datatype rx =
    Lit pystr
  | Cls "nat \<Rightarrow> bool"
  | Star "nat \<Rightarrow> bool"
  | Plus "nat \<Rightarrow> bool"
  | Opt rx
  | Seq rx rx
  | Alt rx rx
  | Group rx
  | WordB

text \<open>
  The matcher backtracks as \<open>re\<close> does. A state is the code point before the current
  position (for \<open>\b\<close>), the text still to read and the groups captured so far;
  \<open>rx_match\<close> lists, in the order in which the backtracking would reach them, the
  states in which the expression can end. The head of the list is the match that \<open>re\<close>
  reports.
\<close>

type_synonym rx_state = "nat option \<times> pystr \<times> pystr list"

fun lit_match :: "pystr \<Rightarrow> nat option \<Rightarrow> pystr \<Rightarrow> (nat option \<times> pystr) option" where
  "lit_match [] p s = Some (p, s)"
| "lit_match (l # ls) p [] = None"
| "lit_match (l # ls) p (c # cs) = (if c = l then lit_match ls (Some c) cs else None)"

fun star_match :: "(nat \<Rightarrow> bool) \<Rightarrow> nat option \<Rightarrow> pystr \<Rightarrow> (nat option \<times> pystr) list" where
  "star_match P p [] = [(p, [])]"
| "star_match P p (c # cs) = (if P c then star_match P (Some c) cs @ [(p, c # cs)] else [(p, c # cs)])"

definition at_word_boundary :: "nat option \<Rightarrow> pystr \<Rightarrow> bool" where
  "at_word_boundary p s =
     ((case p of None \<Rightarrow> False | Some c \<Rightarrow> is_word c)
      \<noteq> (case s of [] \<Rightarrow> False | c # cs \<Rightarrow> is_word c))"

fun rx_match :: "rx \<Rightarrow> rx_state \<Rightarrow> rx_state list" where
  "rx_match (Lit l) (p, s, caps) =
     (case lit_match l p s of None \<Rightarrow> [] | Some (p', s') \<Rightarrow> [(p', s', caps)])"
| "rx_match (Cls P) (p, s, caps) =
     (case s of [] \<Rightarrow> [] | c # cs \<Rightarrow> if P c then [(Some c, cs, caps)] else [])"
| "rx_match (Star P) (p, s, caps) = map (\<lambda>(p', s'). (p', s', caps)) (star_match P p s)"
| "rx_match (Plus P) (p, s, caps) =
     (case s of [] \<Rightarrow> []
      | c # cs \<Rightarrow> if P c then map (\<lambda>(p', s'). (p', s', caps)) (star_match P (Some c) cs)
                  else [])"
| "rx_match (Opt r) (p, s, caps) = rx_match r (p, s, caps) @ [(p, s, caps)]"
| "rx_match (Seq r1 r2) (p, s, caps) = concat (map (rx_match r2) (rx_match r1 (p, s, caps)))"
| "rx_match (Alt r1 r2) (p, s, caps) = rx_match r1 (p, s, caps) @ rx_match r2 (p, s, caps)"
| "rx_match (Group r) (p, s, caps) =
     map (\<lambda>(p', s', caps'). (p', s', caps' @ [take (length s - length s') s]))
       (rx_match r (p, s, caps))"
| "rx_match WordB (p, s, caps) = (if at_word_boundary p s then [(p, s, caps)] else [])"

text \<open>A sequence and an alternation of several expressions.\<close>

fun rx_seq :: "rx list \<Rightarrow> rx" where
  "rx_seq [] = Lit []"
| "rx_seq [r] = r"
| "rx_seq (r # rs) = Seq r (rx_seq rs)"

fun rx_alt :: "rx list \<Rightarrow> rx" where
  "rx_alt [] = Lit []"
| "rx_alt [r] = r"
| "rx_alt (r # rs) = Alt r (rx_alt rs)"



text \<open>\<open>pattern.search(s) is not None\<close>, the test behind \<open>str.contains\<close>.\<close>

fun search_from :: "rx \<Rightarrow> nat option \<Rightarrow> pystr \<Rightarrow> bool" where
  "search_from r p [] = (rx_match r (p, [], []) \<noteq> [])"
| "search_from r p (c # cs) = (rx_match r (p, c # cs, []) \<noteq> [] \<or> search_from r (Some c) cs)"

definition rx_contains :: "rx \<Rightarrow> pystr \<Rightarrow> bool" where
  "rx_contains r s = search_from r None s"






section \<open>EnhancedCVParser\<close>







definition design :: "pystr list" where
  "design =
     [py ''ui design'', py ''ux design'', py ''user research'', py ''wireframing'',
      py ''prototyping'', py ''figma'', py ''sketch'', py ''adobe xd'', py ''invision'',
      py ''zeplin'', py ''graphic design'', py ''visual design'', py ''branding'',
      py ''typography'', py ''color theory'', py ''motion graphics'', py ''animation'',
      py ''after effects'', py ''blender'', py ''3d modeling'', py ''product design'',
      py ''design systems'', py ''accessibility'', py ''responsive design'']"

definition business :: "pystr list" where
  "business =
     [py ''sales'', py ''business development'', py ''account management'',
      py ''client relations'', py ''negotiation'', py ''crm'', py ''salesforce'', py ''hubspot'',
      py ''pipedrive'', py ''strategy'', py ''consulting'', py ''market research'',
      py ''competitive analysis'', py ''financial analysis'', py ''budgeting'',
      py ''forecasting'', py ''excel'', py ''powerpoint'', py ''operations'',
      py ''supply chain'', py ''logistics'', py ''procurement'', py ''vendor management'']"











section \<open>JobScraper\<close>



















section \<open>JobMatcher\<close>

text \<open>
  The dictionary that \<open>EnhancedCVParser.extract_info\<close> returns and \<open>JobMatcher\<close> reads.
\<close>

record cv_data =
  email :: pystr
  phone :: pystr
  skills :: "pystr list"
  years_experience :: int
  full_text :: pystr
  skill_count :: nat

text \<open>
  A job as the caller hands it to the matcher (the capitalised keys), and the job after
  \<open>match_job\<close> has stored its three results in it; the scored jobs are the rows of the
  data frame that \<open>JobFilter\<close> works on.
\<close>

record posting =
  Title :: pystr
  Company :: pystr
  Location :: pystr
  Description :: pystr
  URL :: pystr
  Salary :: pystr
  Posted :: pystr
  Source :: pystr

record scored_job = posting +
  Match_Score :: real
  Match_Explanation :: pystr
  Skills_Matched :: nat

text \<open>
  What the matcher takes from libraries: the TF-IDF vectorizer with the cosine similarity
  of its two vectors (it may raise), and the formatting of the explanation string from
  the text score, the skill score and the sum of the two bonuses. Scores are Python
  floats; they are read as the real numbers they stand for.
\<close>

record matcher_lib =
  similarity :: "pystr \<Rightarrow> pystr \<Rightarrow> error + real"
  explain :: "real \<Rightarrow> real \<Rightarrow> int \<Rightarrow> pystr"

text \<open>\<open>sep.join(parts)\<close>.\<close>

fun join :: "pystr \<Rightarrow> pystr list \<Rightarrow> pystr" where
  "join sep [] = []"
| "join sep [x] = x"
| "join sep (x # xs) = x @ sep @ join sep xs"

text \<open>\<open>self.cv_text\<close>, set by the constructor.\<close>

definition cv_text :: "cv_data \<Rightarrow> pystr" where
  "cv_text cv = lower (join (py '' '') [join (py '' '') (skills cv), take 3000 (full_text cv)])"

text \<open>The tables \<open>adjacent_roles\<close> and \<open>skill_synonyms\<close>, in the order of their keys.\<close>

definition adjacent_roles :: "(pystr \<times> pystr list) list" where
  "adjacent_roles =
     [
      (py ''social media'',
       [py ''content creator'', py ''community manager'', py ''brand strategist'',
        py ''digital marketer'', py ''marketing coordinator'', py ''influencer'']),
      (py ''content'',
       [py ''copywriter'', py ''writer'', py ''blogger'', py ''editor'',
        py ''content strategist'']),
      (py ''marketing'',
       [py ''growth'', py ''campaign manager'', py ''brand coordinator'', py ''seo'']),
      (py ''software'',
       [py ''developer'', py ''engineer'', py ''programmer'', py ''full stack'', py ''backend'',
        py ''frontend'']),
      (py ''python'',
       [py ''data scientist'', py ''machine learning'', py ''backend'', py ''automation'']),
      (py ''javascript'',
       [py ''frontend'', py ''react'', py ''node'', py ''web developer'', py ''full stack'']),
      (py ''data'',
       [py ''analyst'', py ''scientist'', py ''bi'', py ''reporting'', py ''insights'',
        py ''analytics'']),
      (py ''design'',
       [py ''ui'', py ''ux'', py ''graphic'', py ''visual'', py ''product designer'',
        py ''creative'']),
      (py ''figma'',
       [py ''ui designer'', py ''ux designer'', py ''product designer'', py ''visual designer'']),
      (py ''sales'',
       [py ''business development'', py ''account executive'', py ''account manager'',
        py ''bdm'']),
      (py ''account'',
       [py ''customer success'', py ''client relations'', py ''account manager'']),
      (py ''customer'',
       [py ''support'', py ''service'', py ''help desk'', py ''success'', py ''chat'']),
      (py ''admin'',
       [py ''assistant'', py ''coordinator'', py ''office manager'', py ''executive assistant'']),
      (py ''virtual assistant'',
       [py ''admin'', py ''data entry'', py ''scheduling'', py ''bookkeeping'']),
      (py ''recruiting'',
       [py ''talent acquisition'', py ''hr'', py ''sourcer'', py ''recruiter'']),
      (py ''hr'',
       [py ''people operations'', py ''talent'', py ''employee relations''])]"

definition skill_synonyms :: "(pystr \<times> pystr list) list" where
  "skill_synonyms =
     [
      (py ''python'',
       [py ''programming'', py ''coding'', py ''development'']),
      (py ''javascript'',
       [py ''js'', py ''frontend'', py ''web development'']),
      (py ''react'',
       [py ''frontend'', py ''ui development'', py ''web app'']),
      (py ''sql'',
       [py ''database'', py ''data'', py ''queries'']),
      (py ''excel'',
       [py ''spreadsheet'', py ''data analysis'', py ''reporting'']),
      (py ''canva'',
       [py ''graphic design'', py ''visual design'', py ''design tools'']),
      (py ''figma'',
       [py ''ui design'', py ''ux design'', py ''prototyping'']),
      (py ''social media'',
       [py ''smm'', py ''social marketing'', py ''digital marketing'']),
      (py ''content creation'',
       [py ''content writing'', py ''copywriting'', py ''storytelling'']),
      (py ''customer service'',
       [py ''customer support'', py ''help desk'', py ''client support'']),
      (py ''project management'',
       [py ''pm'', py ''coordination'', py ''planning'']),
      (py ''analytics'',
       [py ''data analysis'', py ''reporting'', py ''insights'', py ''metrics''])]"

text \<open>
  \<open>expand_skills\<close>. The Python sets of skills are lists without repetition here: only
  their sizes and the number of their members found in the job text are used.
\<close>

definition synonyms_of :: "pystr \<Rightarrow> pystr list" where
  "synonyms_of skill = (case map_of skill_synonyms skill of None \<Rightarrow> [] | Some syns \<Rightarrow> syns)"

definition expand_skills :: "pystr list \<Rightarrow> pystr list" where
  "expand_skills skill_set = remdups (skill_set @ concat (map synonyms_of skill_set))"

text \<open>The keyword lists of \<open>match_job\<close>.\<close>

definition important_keywords :: "pystr list" where
  "important_keywords =
     [py ''manager'', py ''coordinator'', py ''specialist'', py ''analyst'', py ''developer'',
      py ''engineer'', py ''designer'', py ''assistant'', py ''associate'', py ''consultant'',
      py ''administrator'', py ''marketing'', py ''sales'', py ''support'', py ''content'',
      py ''data'', py ''software'', py ''product'']"

definition entry_keywords :: "pystr list" where
  "entry_keywords =
     [py ''junior'', py ''associate'', py ''assistant'', py ''coordinator'', py ''entry'',
      py ''intern'', py ''specialist'']"

definition senior_keywords :: "pystr list" where
  "senior_keywords =
     [py ''senior'', py ''lead'', py ''head'', py ''director'', py ''manager'', py ''principal'']"

definition is_entry :: "pystr \<Rightarrow> bool" where
  "is_entry job_title = any_in entry_keywords job_title"

definition is_senior :: "pystr \<Rightarrow> bool" where
  "is_senior job_title = any_in senior_keywords job_title"

definition exp_multiplier :: "pystr \<Rightarrow> int \<Rightarrow> real" where
  "exp_multiplier job_title years =
     (if is_senior job_title \<and> years < 3 then 0.7
      else if is_entry job_title \<and> 1 \<le> years \<and> years \<le> 3 then 1.2
      else if \<not> is_senior job_title \<and> 1 \<le> years \<and> years \<le> 4 then 1.1
      else 1.0)"

text \<open>
  \<open>round(x, 2)\<close>: to the nearest multiple of one hundredth, a tie going to the even one.
\<close>

definition round2 :: "real \<Rightarrow> real" where
  "round2 x =
     (let y = x * 100; f = \<lfloor>y\<rfloor>; frac = y - of_int f
      in of_int (if frac < 1 / 2 then f
                 else if 1 / 2 < frac then f + 1
                 else if even f then f else f + 1) / 100)"

text \<open>The terms of the score, in the order in which \<open>match_job\<close> computes them.\<close>

definition job_text :: "'a posting_scheme \<Rightarrow> pystr" where
  "job_text j =
     (let job_title = lower (Title j); desc = lower (take 1500 (Description j))
      in job_title @ py '' '' @ job_title @ py '' '' @ desc)"

definition tfidf_score :: "matcher_lib \<Rightarrow> cv_data \<Rightarrow> 'a posting_scheme \<Rightarrow> real" where
  "tfidf_score lib cv j =
     (case similarity lib (cv_text cv) (job_text j) of
        Inr c \<Rightarrow> c * 100
      | Inl e \<Rightarrow> 0.0)"

definition cv_skills :: "cv_data \<Rightarrow> pystr list" where
  "cv_skills cv = remdups (map lower (skills cv))"

definition skill_matches :: "cv_data \<Rightarrow> 'a posting_scheme \<Rightarrow> nat" where
  "skill_matches cv j =
     length (filter (\<lambda>s. isin s (job_text j)) (expand_skills (cv_skills cv)))"

definition skill_score :: "cv_data \<Rightarrow> 'a posting_scheme \<Rightarrow> real" where
  "skill_score cv j =
     min (real (skill_matches cv j) / real (max (length (cv_skills cv)) 1) * 150) 100"

definition adjacency_bonus :: "cv_data \<Rightarrow> 'a posting_scheme \<Rightarrow> int" where
  "adjacency_bonus cv j =
     fold (\<lambda>(role_type, adjacent_list) bonus.
             if isin role_type (cv_text cv) \<and> any_in adjacent_list (job_text j)
             then bonus + 15 else bonus)
       adjacent_roles 0"

definition title_bonus :: "cv_data \<Rightarrow> 'a posting_scheme \<Rightarrow> int" where
  "title_bonus cv j =
     fold (\<lambda>kw bonus. if isin kw (cv_text cv) \<and> isin kw (lower (Title j))
                       then bonus + 8 else bonus)
       important_keywords 0"

definition base_score :: "matcher_lib \<Rightarrow> cv_data \<Rightarrow> 'a posting_scheme \<Rightarrow> real" where
  "base_score lib cv j =
     tfidf_score lib cv j * 0.35 + skill_score cv j * 0.40
       + of_int (adjacency_bonus cv j) + of_int (title_bonus cv j)"

definition final_score :: "matcher_lib \<Rightarrow> cv_data \<Rightarrow> 'a posting_scheme \<Rightarrow> real" where
  "final_score lib cv j =
     round2 (min (base_score lib cv j * exp_multiplier (lower (Title j)) (years_experience cv))
               100)"

text \<open>\<open>match_job\<close> stores the score, the explanation and the number of matched skills.\<close>

definition match_job :: "matcher_lib \<Rightarrow> cv_data \<Rightarrow> posting \<Rightarrow> scored_job" where
  "match_job lib cv j =
     posting.extend j
       (scored_job.fields (final_score lib cv j)
          (explain lib (tfidf_score lib cv j) (skill_score cv j)
             (adjacency_bonus cv j + title_bonus cv j))
          (skill_matches cv j))"

definition score_jobs :: "matcher_lib \<Rightarrow> cv_data \<Rightarrow> posting list \<Rightarrow> scored_job list" where
  "score_jobs lib cv jobs = map (match_job lib cv) jobs"

section \<open>JobFilter\<close>

text \<open>
  What the filter takes from libraries: the two \<open>datetime\<close> parsers (a date is the
  number of microseconds since the epoch, read without its time zone), \<open>re.compile\<close>
  for the patterns that are built from the user's keywords (an error, or the test
  \<open>search(s) is not None\<close> of the compiled pattern), and what the \<open>.dt\<close> accessor does
  on the date column of a frame without rows, whose type pandas cannot infer (nothing, or
  the error it raises).
\<close>

record filter_lib =
  fromisoformat :: "pystr \<Rightarrow> error + int"
  strptime :: "pystr \<Rightarrow> error + int"
  re_compile :: "pystr \<Rightarrow> error + (pystr \<Rightarrow> bool)"
  dt_of_empty :: "error option"

text \<open>The object: the \<open>remote_type\<close> entry of its preferences and its clock reading.\<close>

record job_filter =
  remote_type :: pystr
  now :: int

text \<open>\<open>s.replace(old, new)\<close> for a non-empty \<open>old\<close>: the occurrences from the left.\<close>

fun replace_from :: "pystr \<Rightarrow> pystr \<Rightarrow> nat \<Rightarrow> pystr \<Rightarrow> pystr" where
  "replace_from old new k [] = []"
| "replace_from old new (Suc k) (c # cs) = replace_from old new k cs"
| "replace_from old new 0 (c # cs) =
     (if startswith (c # cs) old then new @ replace_from old new (length old - 1) cs
      else c # replace_from old new 0 cs)"

definition replace :: "pystr \<Rightarrow> pystr \<Rightarrow> pystr \<Rightarrow> pystr" where
  "replace old new s = replace_from old new 0 s"

definition parse_date :: "filter_lib \<Rightarrow> job_filter \<Rightarrow> pystr \<Rightarrow> int" where
  "parse_date lib self date_str =
     (if date_str = [] \<or> date_str \<in> {py ''N/A'', py ''Recent''} then now self
      else (case (if isin (py ''T'') date_str
                  then fromisoformat lib (replace (py ''Z'') [] (replace (py ''+00:00'') [] date_str))
                  else strptime lib (take 10 date_str)) of
              Inr dt \<Rightarrow> dt
            | Inl e \<Rightarrow> now self))"

text \<open>The whole days of \<open>self.now - parsed_date\<close>.\<close>

definition days_ago :: "filter_lib \<Rightarrow> job_filter \<Rightarrow> scored_job \<Rightarrow> int" where
  "days_ago lib self r = (now self - parse_date lib self (Posted r)) div 86400000000"

text \<open>The keyword boost: +15 for a match in the title, +10 for one in the description only, then the cap at 100.\<close>

definition boost_row :: "(pystr \<Rightarrow> bool) \<Rightarrow> scored_job \<Rightarrow> scored_job" where
  "boost_row contains r =
     (let title_match = contains (lower (Title r));
          desc_match = contains (lower (Description r));
          r = (if title_match then r\<lparr>Match_Score := Match_Score r + 15\<rparr> else r);
          r = (if desc_match \<and> \<not> title_match then r\<lparr>Match_Score := Match_Score r + 10\<rparr> else r)
      in r\<lparr>Match_Score := min (Match_Score r) 100\<rparr>)"

definition keyword_boost :: "filter_lib \<Rightarrow> pystr list \<Rightarrow> scored_job list \<Rightarrow> error + scored_job list" where
  "keyword_boost lib search_keywords jobs_df =
     (if search_keywords \<noteq> []
      then (let search_pattern =
                  join (py ''|'') (map (\<lambda>kw. lower (strip kw))
                                     (filter (\<lambda>kw. strip kw \<noteq> []) search_keywords))
            in if search_pattern \<noteq> []
               then and_then (re_compile lib search_pattern)
                      (\<lambda>contains. Inr (map (boost_row contains) jobs_df))
               else Inr jobs_df)
      else Inr jobs_df)"

text \<open>
  The exclusion: for each keyword the pattern is the keyword, stripped and lower-cased,
  between two \<open>\b\<close> (the code points 92 and 98), and the rows whose title it matches go.
\<close>

definition exclude_pattern :: "pystr \<Rightarrow> pystr" where
  "exclude_pattern kw = [92, 98] @ kw @ [92, 98]"

fun exclude_loop :: "filter_lib \<Rightarrow> pystr list \<Rightarrow> scored_job list \<Rightarrow> error + scored_job list" where
  "exclude_loop lib [] jobs_df = Inr jobs_df"
| "exclude_loop lib (kw # kws) jobs_df =
     (let kw = lower (strip kw)
      in if kw \<noteq> []
         then and_then (re_compile lib (exclude_pattern kw))
                (\<lambda>contains. exclude_loop lib kws
                                (filter (\<lambda>r. \<not> contains (lower (Title r))) jobs_df))
         else exclude_loop lib kws jobs_df)"

text \<open>The recency filter, with its one relaxation to 45 days.\<close>

definition recency_filter :: "filter_lib \<Rightarrow> job_filter \<Rightarrow> int \<Rightarrow> scored_job list \<Rightarrow> error + scored_job list" where
  "recency_filter lib self max_days jobs_df =
     (case (if jobs_df = [] then dt_of_empty lib else None) of
        Some e \<Rightarrow> Inl e
      | None \<Rightarrow>
          (let filtered = filter (\<lambda>r. days_ago lib self r \<le> max_days) jobs_df
           in Inr (if length filtered < 20 then filter (\<lambda>r. days_ago lib self r \<le> 45) jobs_df
                   else filtered)))"

text \<open>
  \<open>nlargest(n, 'Match Score')\<close>: the first \<open>n\<close> rows in descending order of score, the
  earlier row first among equal scores.
\<close>

definition nlargest :: "nat \<Rightarrow> scored_job list \<Rightarrow> scored_job list" where
  "nlargest n rows = take n (sort_key (\<lambda>r. - Match_Score r) rows)"

text \<open>The score filter and its fallbacks.\<close>

definition score_filter :: "real \<Rightarrow> scored_job list \<Rightarrow> scored_job list" where
  "score_filter min_score filtered =
     (let score_filtered = filter (\<lambda>r. min_score \<le> Match_Score r) filtered;
          score_filtered =
            (if length score_filtered < 5
             then filter (\<lambda>r. max (min_score - 20) 20 \<le> Match_Score r) filtered
             else score_filtered);
          score_filtered =
            (if length score_filtered < 5 then filter (\<lambda>r. 10 \<le> Match_Score r) filtered
             else score_filtered);
          score_filtered =
            (if length score_filtered < 5 then nlargest (min 20 (length filtered)) filtered
             else score_filtered)
      in score_filtered)"

text \<open>
  The patterns of the location filter:
  \<^verbatim>\<open>,\s*(al|ak|...|dc)\b\<close>, \<^verbatim>\<open>\b(united states|usa|u\.s\.a|u\.s\b)\<close> and the two
  alternations of keywords, joined with a bar.
\<close>

definition us_states :: "pystr list" where
  "us_states =
     [py ''al'', py ''ak'', py ''az'', py ''ar'', py ''ca'', py ''co'', py ''ct'', py ''de'',
      py ''fl'', py ''ga'', py ''hi'', py ''id'', py ''il'', py ''in'', py ''ia'', py ''ks'',
      py ''ky'', py ''la'', py ''me'', py ''md'', py ''ma'', py ''mi'', py ''mn'', py ''ms'',
      py ''mo'', py ''mt'', py ''ne'', py ''nv'', py ''nh'', py ''nj'', py ''nm'', py ''ny'',
      py ''nc'', py ''nd'', py ''oh'', py ''ok'', py ''or'', py ''pa'', py ''ri'', py ''sc'',
      py ''sd'', py ''tn'', py ''tx'', py ''ut'', py ''vt'', py ''va'', py ''wa'', py ''wv'',
      py ''wi'', py ''wy'', py ''dc'']"

definition us_state_pattern :: rx where
  "us_state_pattern = rx_seq [Lit (py '',''), Star is_space, Group (rx_alt (map Lit us_states)), WordB]"

definition us_country_pattern :: rx where
  "us_country_pattern =
     rx_seq [WordB, Group (rx_alt [Lit (py ''united states''), Lit (py ''usa''), Lit (py ''u.s.a''),
                                   Seq (Lit (py ''u.s'')) WordB])]"

definition worldwide_keywords :: "pystr list" where
  "worldwide_keywords =
     [py ''anywhere'', py ''worldwide'', py ''global'', py ''international'', py ''emea'',
      py ''apac'', py ''latam'', py ''europe'', py ''africa'', py ''asia'']"

definition worldwide_pattern :: rx where
  "worldwide_pattern = rx_alt (map Lit worldwide_keywords)"

definition usa_keywords :: "pystr list" where
  "usa_keywords =
     [py ''usa'', py ''us'', py ''united states'', py ''america'']"

definition usa_pattern :: rx where
  "usa_pattern = rx_alt (map Lit usa_keywords)"

text \<open>The worldwide branch: the boost of 30, then the penalty of 40.\<close>

definition is_worldwide :: "scored_job \<Rightarrow> bool" where
  "is_worldwide r = rx_contains worldwide_pattern (lower (Location r))"

definition is_just_remote :: "scored_job \<Rightarrow> bool" where
  "is_just_remote r = (strip (lower (Location r)) = py ''remote'')"

definition is_us_specific :: "scored_job \<Rightarrow> bool" where
  "is_us_specific r =
     (let location_text = lower (Location r);
          is_us_city = rx_contains us_state_pattern location_text;
          is_us_country = rx_contains us_country_pattern location_text
      in (is_us_city \<or> is_us_country) \<and> \<not> is_worldwide r)"

definition worldwide_adjust :: "scored_job \<Rightarrow> scored_job" where
  "worldwide_adjust r =
     (let boosted = (if is_worldwide r \<or> is_just_remote r
                     then r\<lparr>Match_Score := Match_Score r + 30\<rparr> else r)
      in if is_us_specific r then boosted\<lparr>Match_Score := Match_Score boosted - 40\<rparr>
         else boosted)"

definition is_usa :: "scored_job \<Rightarrow> bool" where
  "is_usa r = rx_contains usa_pattern (lower (Location r))"

definition location_filter :: "job_filter \<Rightarrow> scored_job list \<Rightarrow> scored_job list" where
  "location_filter self filtered =
     (if remote_type self \<in> {py ''Worldwide Remote (Anywhere)'', py ''Worldwide (Anywhere)''}
      then map worldwide_adjust filtered
      else if remote_type self \<in> {py ''USA Remote Only'', py ''USA Only''}
      then (let usa_jobs = filter is_usa filtered
            in if 5 \<le> length usa_jobs then usa_jobs else filtered)
      else filtered)"

text \<open>The last cap at 100.\<close>

definition clip_upper :: "scored_job list \<Rightarrow> scored_job list" where
  "clip_upper filtered = map (\<lambda>r. r\<lparr>Match_Score := min (Match_Score r) 100\<rparr>) filtered"

text \<open>
  \<open>sort_values('Match Score', ascending=False)\<close> is called with the default kind of
  sort, which pandas documents as not stable: the result holds the same rows in
  descending order of score, and nothing more is fixed. It is a relation between the
  frame and the sorted frame.
\<close>

definition sort_values_desc :: "scored_job list \<Rightarrow> scored_job list \<Rightarrow> bool" where
  "sort_values_desc rows out \<longleftrightarrow>
     mset out = mset rows \<and> sorted_wrt (\<lambda>a b. Match_Score b \<le> Match_Score a) out"

text \<open>\<open>apply_all_filters\<close> up to the sort: each stage works on the output of the one before.\<close>

definition before_sort ::
  "filter_lib \<Rightarrow> job_filter \<Rightarrow> scored_job list \<Rightarrow> int \<Rightarrow> real \<Rightarrow> pystr list \<Rightarrow> pystr list
     \<Rightarrow> error + scored_job list" where
  "before_sort lib self jobs_df max_days min_score exclude_keywords search_keywords =
     and_then (keyword_boost lib search_keywords jobs_df) (\<lambda>jobs_df.
     and_then (exclude_loop lib exclude_keywords jobs_df) (\<lambda>jobs_df.
     and_then (recency_filter lib self max_days jobs_df) (\<lambda>filtered.
       Inr (clip_upper (location_filter self (score_filter min_score filtered))))))"

text \<open>
  \<open>apply_all_filters\<close>, as the relation between its arguments and an outcome: the error
  it raises, or a frame it may return.
\<close>

definition apply_all_filters ::
  "filter_lib \<Rightarrow> job_filter \<Rightarrow> scored_job list \<Rightarrow> int \<Rightarrow> real \<Rightarrow> pystr list \<Rightarrow> pystr list
     \<Rightarrow> error + scored_job list \<Rightarrow> bool" where
  "apply_all_filters lib self jobs_df max_days min_score exclude_keywords search_keywords outcome =
     (if jobs_df = [] then outcome = Inr jobs_df
      else (case before_sort lib self jobs_df max_days min_score exclude_keywords search_keywords of
              Inl e \<Rightarrow> outcome = Inl e
            | Inr filtered \<Rightarrow>
                (case outcome of Inl e \<Rightarrow> False | Inr out \<Rightarrow> sort_values_desc filtered out)))"

section \<open>Auxiliary definitions for the properties\<close>











text \<open>
  Rows of a scored frame and filter runs: a row from its title, location and score, posted
  at an unknown date; a library in which no date string parses and the pattern compiler
  rejects its argument (the runs below compile no pattern but \<^verbatim>\<open>\b(\b\<close>, which
  \<open>re\<close> rejects as an unterminated group); a filter of the worldwide preference and one
  of the ``All Remote'' preference; five rows with the score 5.
\<close>

definition row :: "string \<Rightarrow> string \<Rightarrow> real \<Rightarrow> scored_job" where
  "row t loc score = \<lparr>Title = py t, Company = py ''Acme'', Location = py loc, Description = [],
     URL = py t, Salary = py ''N/A'', Posted = py ''N/A'', Source = py ''Remotive'',
     Match_Score = score, Match_Explanation = [], Skills_Matched = 0\<rparr>"

definition offline_lib :: filter_lib where
  "offline_lib = \<lparr>fromisoformat = (\<lambda>s. Inl (OtherError s)), strptime = (\<lambda>s. Inl (OtherError s)),
     re_compile = (\<lambda>p. Inl (ReError p)),
     dt_of_empty = None\<rparr>"

definition worldwide_filter :: job_filter where
  "worldwide_filter = \<lparr>remote_type = py ''Worldwide (Anywhere)'', now = 0\<rparr>"

definition all_remote_filter :: job_filter where
  "all_remote_filter = \<lparr>remote_type = py ''All Remote'', now = 0\<rparr>"

definition five_rows :: "scored_job list" where
  "five_rows = map (\<lambda>t. row t ''Remote'' 5) [''A'', ''B'', ''C'', ''D'', ''E'']"

section \<open>Properties of the aggregator\<close>












section \<open>Properties of the resume parser\<close>













section \<open>Properties of the matcher\<close>

lemma round2_bounds:
  assumes "0 \<le> x" "x \<le> 100"
  shows "0 \<le> round2 x \<and> round2 x \<le> 100"
proof -
  let ?y = "x * 100"
  let ?f = "\<lfloor>?y\<rfloor>"
  have f0: "0 \<le> ?f" using assms by simp
  have fle: "?f \<le> 10000" using assms by (simp add: floor_le_iff)
  have up: "1 / 2 \<le> ?y - of_int ?f \<Longrightarrow> ?f + 1 \<le> 10000"
  proof -
    assume h: "1 / 2 \<le> ?y - of_int ?f"
    have "?y \<le> 10000" using assms by simp
    then have "of_int ?f < (10000::real)" using h by linarith
    then have "?f < 10000" by linarith
    then show ?thesis by simp
  qed
  define k where "k = (if ?y - of_int ?f < 1 / 2 then ?f
                 else if 1 / 2 < ?y - of_int ?f then ?f + 1
                 else if even ?f then ?f else ?f + 1)"
  have k0: "0 \<le> k" using f0 by (simp add: k_def)
  have k1: "k \<le> 10000" using fle up by (auto simp: k_def)
  have r: "round2 x = of_int k / 100" by (simp add: round2_def Let_def k_def)
  have "0 \<le> (of_int k :: real) / 100" using k0 by simp
  moreover have "(of_int k :: real) / 100 \<le> 100" using k1 by simp
  ultimately show ?thesis unfolding r by simp
qed

lemma fold_bonus_nonneg:
  "(0::int) \<le> b \<Longrightarrow> 0 \<le> c \<Longrightarrow> 0 \<le> fold (\<lambda>x bonus. if P x then bonus + c else bonus) xs b"
  by (induction xs arbitrary: b) simp_all

lemma adjacency_bonus_nonneg: "0 \<le> adjacency_bonus cv j"
proof -
  have "adjacency_bonus cv j =
      fold (\<lambda>x bonus. if (case x of (role_type, adjacent_list) \<Rightarrow>
               isin role_type (cv_text cv) \<and> any_in adjacent_list (job_text j))
             then bonus + 15 else bonus) adjacent_roles 0"
    unfolding adjacency_bonus_def by (rule arg_cong [where f = "\<lambda>f. fold f adjacent_roles 0"]) auto
  then show ?thesis by (simp add: fold_bonus_nonneg)
qed

lemma title_bonus_nonneg: "0 \<le> title_bonus cv j"
  unfolding title_bonus_def by (rule fold_bonus_nonneg) simp_all

lemma skill_score_nonneg: "0 \<le> skill_score cv j"
  by (simp add: skill_score_def)

lemma tfidf_score_nonneg:
  assumes "\<forall>a b c. similarity lib a b = Inr c \<longrightarrow> 0 \<le> c"
  shows "0 \<le> tfidf_score lib cv j"
  using assms by (auto simp: tfidf_score_def split: sum.splits)

lemma base_score_nonneg:
  assumes "\<forall>a b c. similarity lib a b = Inr c \<longrightarrow> 0 \<le> c"
  shows "0 \<le> base_score lib cv j"
  using tfidf_score_nonneg [OF assms, of cv j] skill_score_nonneg [of cv j]
    adjacency_bonus_nonneg [of cv j] title_bonus_nonneg [of cv j]
  by (simp add: base_score_def)

lemma exp_multiplier_pos: "0 < exp_multiplier t y"
  by (simp add: exp_multiplier_def)

lemma Match_Score_match_job: "Match_Score (match_job lib cv j) = final_score lib cv j"
  by (simp add: match_job_def posting.defs scored_job.defs)

lemma final_score_bounds:
  assumes "\<forall>a b c. similarity lib a b = Inr c \<longrightarrow> 0 \<le> c"
  shows "0 \<le> final_score lib cv j \<and> final_score lib cv j \<le> 100"
proof -
  have "0 \<le> base_score lib cv j * exp_multiplier (lower (Title j)) (years_experience cv)"
    using base_score_nonneg [OF assms, of cv j] exp_multiplier_pos [of "lower (Title j)" "years_experience cv"]
    by (simp add: less_imp_le)
  then show ?thesis unfolding final_score_def by (intro round2_bounds) simp_all
qed








section \<open>Properties of the filter\<close>

lemma boost_row_lower: "lo \<le> Match_Score r \<Longrightarrow> lo \<le> 100 \<Longrightarrow> lo \<le> Match_Score (boost_row c r)"
  by (simp add: boost_row_def Let_def)

lemma keyword_boost_lower:
  assumes "keyword_boost lib search_keywords jobs_df = Inr boosted"
    and "\<forall>r \<in> set jobs_df. lo \<le> Match_Score r" and "lo \<le> 100"
  shows "\<forall>r \<in> set boosted. lo \<le> Match_Score r"
  using assms
  by (auto simp: keyword_boost_def Let_def and_then_def boost_row_lower
      split: if_splits sum.splits)

lemma exclude_loop_subset:
  "exclude_loop lib kws jobs_df = Inr kept \<Longrightarrow> set kept \<subseteq> set jobs_df"
proof (induction kws arbitrary: jobs_df)
  case Nil
  then show ?case by simp
next
  case (Cons kw kws)
  show ?case
  proof (cases "lower (strip kw) = []")
    case True
    with Cons.prems have "exclude_loop lib kws jobs_df = Inr kept" by simp
    then show ?thesis by (rule Cons.IH)
  next
    case False
    with Cons.prems obtain c where
      c: "re_compile lib (exclude_pattern (lower (strip kw))) = Inr c"
      and rest: "exclude_loop lib kws (filter (\<lambda>r. \<not> c (lower (Title r))) jobs_df) = Inr kept"
      by (auto simp: and_then_def Let_def split: sum.splits)
    from Cons.IH [OF rest] show ?thesis by auto
  qed
qed

lemma recency_filter_subset:
  "recency_filter lib self max_days jobs_df = Inr filtered \<Longrightarrow> set filtered \<subseteq> set jobs_df"
  by (auto simp: recency_filter_def Let_def split: option.splits if_splits)

lemma nlargest_subset: "set (nlargest n rows) \<subseteq> set rows"
  using set_take_subset [of n "sort_key (\<lambda>r. - Match_Score r) rows"]
  by (simp add: nlargest_def)

lemma score_filter_subset: "set (score_filter min_score filtered) \<subseteq> set filtered"
  using nlargest_subset [of "min 20 (length filtered)" filtered]
  by (auto simp: score_filter_def Let_def)

lemma worldwide_adjust_lower: "Match_Score r - 40 \<le> Match_Score (worldwide_adjust r)"
  by (simp add: worldwide_adjust_def Let_def)

lemma location_filter_lower:
  assumes "\<forall>r \<in> set filtered. lo \<le> Match_Score r"
  shows "\<forall>r \<in> set (location_filter self filtered). lo - 40 \<le> Match_Score r"
proof -
  have w: "\<forall>r \<in> set (map worldwide_adjust filtered). lo - 40 \<le> Match_Score r"
  proof
    fix r assume "r \<in> set (map worldwide_adjust filtered)"
    then obtain r0 where r0: "r0 \<in> set filtered" "r = worldwide_adjust r0" by auto
    with assms have "lo \<le> Match_Score r0" by blast
    with worldwide_adjust_lower [of r0] r0 show "lo - 40 \<le> Match_Score r" by simp
  qed
  have u: "\<forall>r \<in> set filtered. lo - 40 \<le> Match_Score r"
    using assms by fastforce
  then have f: "\<forall>r \<in> set (filter is_usa filtered). lo - 40 \<le> Match_Score r" by simp
  show ?thesis unfolding location_filter_def Let_def using w u f by presburger
qed

lemma clip_upper_bounds:
  "\<forall>r \<in> set (clip_upper filtered). Match_Score r \<le> 100"
  by (auto simp: clip_upper_def)

lemma clip_upper_lower:
  assumes "\<forall>r \<in> set filtered. lo \<le> Match_Score r" and "lo \<le> 100"
  shows "\<forall>r \<in> set (clip_upper filtered). lo \<le> Match_Score r"
  using assms by (auto simp: clip_upper_def)

lemma sort_values_desc_set: "sort_values_desc rows out \<Longrightarrow> set out = set rows"
  by (auto simp: sort_values_desc_def dest: mset_eq_setD)

lemma sort_values_desc_length: "sort_values_desc rows out \<Longrightarrow> length out = length rows"
  by (auto simp: sort_values_desc_def dest: mset_eq_length)

lemma sort_values_desc_ex: "sort_values_desc rows (sort_key (\<lambda>r. - Match_Score r) rows)"
proof -
  have "sorted (map (\<lambda>r. - Match_Score r) (sort_key (\<lambda>r. - Match_Score r) rows))"
    by (rule sorted_sort_key)
  then have "sorted_wrt (\<lambda>a b. Match_Score b \<le> Match_Score a) (sort_key (\<lambda>r. - Match_Score r) rows)"
    by (simp add: sorted_map)
  then show ?thesis by (simp add: sort_values_desc_def)
qed

lemma before_sort_stages:
  assumes "before_sort lib self jobs_df max_days min_score ex se = Inr capped"
  obtains boosted kept filtered where
    "keyword_boost lib se jobs_df = Inr boosted"
    "exclude_loop lib ex boosted = Inr kept"
    "recency_filter lib self max_days kept = Inr filtered"
    "capped = clip_upper (location_filter self (score_filter min_score filtered))"
  using assms by (auto simp: before_sort_def and_then_def split: sum.splits)

lemma apply_all_filters_returns:
  assumes "apply_all_filters lib self jobs_df max_days min_score ex se (Inr out)"
    and "jobs_df \<noteq> []"
  obtains capped where
    "before_sort lib self jobs_df max_days min_score ex se = Inr capped"
    "sort_values_desc capped out"
  using assms by (auto simp: apply_all_filters_def split: sum.splits)

lemma before_sort_bounds:
  assumes bs: "before_sort lib self jobs_df max_days min_score ex se = Inr capped"
  shows "(\<forall>r \<in> set capped. Match_Score r \<le> 100) \<and>
         ((\<forall>r \<in> set jobs_df. 0 \<le> Match_Score r) \<longrightarrow> (\<forall>r \<in> set capped. - 40 \<le> Match_Score r))"
proof -
  from bs obtain boosted kept filtered where
    kb: "keyword_boost lib se jobs_df = Inr boosted" and
    ex: "exclude_loop lib ex boosted = Inr kept" and
    rf: "recency_filter lib self max_days kept = Inr filtered" and
    cap: "capped = clip_upper (location_filter self (score_filter min_score filtered))"
    by (rule before_sort_stages)
  have up: "\<forall>r \<in> set capped. Match_Score r \<le> 100"
    unfolding cap by (rule clip_upper_bounds)
  have lo: "\<forall>r \<in> set capped. - 40 \<le> Match_Score r" if nn: "\<forall>r \<in> set jobs_df. 0 \<le> Match_Score r"
  proof -
    have b: "\<forall>r \<in> set boosted. 0 \<le> Match_Score r"
      by (rule keyword_boost_lower [OF kb nn]) simp
    have "set filtered \<subseteq> set boosted"
      using exclude_loop_subset [OF ex] recency_filter_subset [OF rf] by blast
    moreover have "set (score_filter min_score filtered) \<subseteq> set filtered"
      by (rule score_filter_subset)
    ultimately have s: "\<forall>r \<in> set (score_filter min_score filtered). 0 \<le> Match_Score r"
      using b by blast
    have "\<forall>r \<in> set (location_filter self (score_filter min_score filtered)). 0 - 40 \<le> Match_Score r"
      by (rule location_filter_lower [OF s])
    then have "\<forall>r \<in> set (location_filter self (score_filter min_score filtered)). - 40 \<le> Match_Score r"
      by simp
    then show ?thesis unfolding cap by (rule clip_upper_lower) simp
  qed
  from up lo show ?thesis by blast
qed

lemma filter_score_bounds:
  assumes "apply_all_filters lib self jobs_df max_days min_score ex se (Inr out)"
  shows "(\<forall>r \<in> set out. Match_Score r \<le> 100) \<and>
         ((\<forall>r \<in> set jobs_df. 0 \<le> Match_Score r) \<longrightarrow> (\<forall>r \<in> set out. - 40 \<le> Match_Score r))"
proof (cases "jobs_df = []")
  case True
  with assms have "out = []" by (simp add: apply_all_filters_def)
  then show ?thesis by simp
next
  case False
  with assms obtain capped where
    bs: "before_sort lib self jobs_df max_days min_score ex se = Inr capped" and
    so: "sort_values_desc capped out"
    by (rule apply_all_filters_returns)
  from sort_values_desc_set [OF so] before_sort_bounds [OF bs] show ?thesis by simp
qed

lemma nlargest_length: "length (nlargest n rows) = min n (length rows)"
  by (simp add: nlargest_def min.commute)

lemma score_filter_length:
  assumes "5 \<le> length filtered"
  shows "5 \<le> length (score_filter min_score filtered)"
proof -
  have "5 \<le> length (nlargest (min 20 (length filtered)) filtered)"
    using assms by (simp add: nlargest_length)
  then show ?thesis by (simp add: score_filter_def Let_def)
qed

lemma location_filter_length:
  assumes "5 \<le> length filtered"
  shows "5 \<le> length (location_filter self filtered)"
  using assms by (simp add: location_filter_def Let_def)

lemma clip_upper_length: "length (clip_upper filtered) = length filtered"
  by (simp add: clip_upper_def)

text \<open>
  Claim C3. When the stages before the score filter raise nothing and at least five rows
  survive the recency stage, \<open>apply_all_filters\<close> returns, and every frame it can
  return has at least five rows, whatever \<open>min_score\<close> is: the last fallback of the
  score filter takes the \<open>min(20, len)\<close> best rows, the worldwide branch removes no row
  and the USA branch keeps its selection only when it has five rows.
\<close>

theorem at_least_five:
  assumes kb: "keyword_boost lib se jobs_df = Inr boosted"
    and ex: "exclude_loop lib ex boosted = Inr kept"
    and rf: "recency_filter lib self max_days kept = Inr filtered"
    and five: "5 \<le> length filtered"
  shows "(\<exists>out. apply_all_filters lib self jobs_df max_days min_score ex se (Inr out)) \<and>
         (\<forall>outcome. apply_all_filters lib self jobs_df max_days min_score ex se outcome \<longrightarrow>
            (\<exists>out. outcome = Inr out \<and> 5 \<le> length out))"
proof -
  let ?capped = "clip_upper (location_filter self (score_filter min_score filtered))"
  have ne: "jobs_df \<noteq> []"
  proof
    assume e: "jobs_df = []"
    with kb have "boosted = []"
      by (auto simp: keyword_boost_def Let_def and_then_def split: if_splits sum.splits)
    with exclude_loop_subset [OF ex] have "kept = []" by simp
    with recency_filter_subset [OF rf] have "filtered = []" by simp
    with five show False by simp
  qed
  have bs: "before_sort lib self jobs_df max_days min_score ex se = Inr ?capped"
    by (simp add: before_sort_def and_then_def kb ex rf)
  have len: "5 \<le> length ?capped"
    using location_filter_length [OF score_filter_length [OF five]]
    by (simp add: clip_upper_length)
  have "apply_all_filters lib self jobs_df max_days min_score ex se
          (Inr (sort_key (\<lambda>r. - Match_Score r) ?capped))"
    using ne bs sort_values_desc_ex [of ?capped] by (simp add: apply_all_filters_def)
  then have ex1: "\<exists>out. apply_all_filters lib self jobs_df max_days min_score ex se (Inr out)" ..
  have all: "\<forall>outcome. apply_all_filters lib self jobs_df max_days min_score ex se outcome \<longrightarrow>
            (\<exists>out. outcome = Inr out \<and> 5 \<le> length out)"
  proof (intro allI impI)
    fix outcome
    assume a: "apply_all_filters lib self jobs_df max_days min_score ex se outcome"
    then obtain out where o: "outcome = Inr out" "sort_values_desc ?capped out"
      using ne bs by (cases outcome) (auto simp: apply_all_filters_def)
    with sort_values_desc_length [OF o(2)] len show "\<exists>out. outcome = Inr out \<and> 5 \<le> length out"
      by simp
  qed
  from ex1 all show ?thesis ..
qed



lemmas rx_loc = rx_contains_def worldwide_pattern_def worldwide_keywords_def
  us_state_pattern_def us_states_def us_country_pattern_def usa_pattern_def usa_keywords_def
  at_word_boundary_def is_word_def is_space_def lower_def lower_cp_def strip_def

lemma ny_lower: "lower (py ''New York, NY'') = py ''new york, ny''"
  by (simp add: lower_def lower_cp_def)

lemma ww_lower: "lower (py ''Remote - Worldwide'') = py ''remote - worldwide''"
  by (simp add: lower_def lower_cp_def)

lemma ny_state: "rx_contains us_state_pattern (py ''new york, ny'')"
  by (simp add: rx_loc)

lemma ny_not_worldwide: "\<not> rx_contains worldwide_pattern (py ''new york, ny'')"
  by (simp add: rx_loc)

lemma ny_not_remote: "strip (py ''new york, ny'') \<noteq> py ''remote''"
  by (simp add: rx_loc)

lemma ww_worldwide: "rx_contains worldwide_pattern (py ''remote - worldwide'')"
  by (simp add: rx_loc)

lemma ny_adjust:
  assumes "Location r = py ''New York, NY''"
  shows "worldwide_adjust r = r\<lparr>Match_Score := Match_Score r - 40\<rparr>"
  using ny_state ny_not_worldwide ny_not_remote
  unfolding worldwide_adjust_def is_us_specific_def is_worldwide_def is_just_remote_def
    Let_def assms ny_lower
  by simp

lemma ww_adjust:
  assumes "Location r = py ''Remote - Worldwide''"
  shows "worldwide_adjust r = r\<lparr>Match_Score := Match_Score r + 30\<rparr>"
  using ww_worldwide
  unfolding worldwide_adjust_def is_us_specific_def is_worldwide_def is_just_remote_def
    Let_def assms ww_lower
  by simp

lemma worldwide_rows:
  assumes "remote_type self \<in> {py ''Worldwide Remote (Anywhere)'', py ''Worldwide (Anywhere)''}"
  shows "clip_upper (location_filter self filtered) =
           map (\<lambda>r. (worldwide_adjust r)\<lparr>Match_Score := min (Match_Score (worldwide_adjust r)) 100\<rparr>)
             filtered"
  using assms unfolding location_filter_def clip_upper_def by (simp add: comp_def)

text \<open>
  Claim C7, as the code has it. Under the worldwide preference, of two rows that reach the
  location stage with the same score \<open>s\<close> of at most 100, the one in ``New York, NY'' ends
  with \<open>s - 40\<close> and the one in ``Remote - Worldwide'' with \<open>min(s + 30, 100)\<close>,
  because of the cap at 100: the gap is 70 when \<open>s \<le> 70\<close> and \<open>140 - s\<close> above.
\<close>

theorem worldwide_gap:
  assumes w: "remote_type self \<in> {py ''Worldwide Remote (Anywhere)'', py ''Worldwide (Anywhere)''}"
    and i: "i < length filtered" and k: "k < length filtered"
    and ny: "Location (filtered ! i) = py ''New York, NY''"
    and ww: "Location (filtered ! k) = py ''Remote - Worldwide''"
    and same: "Match_Score (filtered ! i) = s" "Match_Score (filtered ! k) = s"
    and le: "s \<le> 100"
  shows "Match_Score (clip_upper (location_filter self filtered) ! i) = s - 40 \<and>
         Match_Score (clip_upper (location_filter self filtered) ! k) = min (s + 30) 100 \<and>
         Match_Score (clip_upper (location_filter self filtered) ! k)
           - Match_Score (clip_upper (location_filter self filtered) ! i) = min 70 (140 - s)"
proof -
  have a: "Match_Score (clip_upper (location_filter self filtered) ! i) = s - 40"
    using le by (simp add: worldwide_rows [OF w] i ny_adjust [OF ny] same)
  have b: "Match_Score (clip_upper (location_filter self filtered) ! k) = min (s + 30) 100"
    by (simp add: worldwide_rows [OF w] k ww_adjust [OF ww] same)
  show ?thesis unfolding a b by (simp add: min_def)
qed

lemma ny_row: "Location (row t ''New York, NY'' s) = py ''New York, NY''" by (simp add: row_def)
lemma ww_row: "Location (row t ''Remote - Worldwide'' s) = py ''Remote - Worldwide''" by (simp add: row_def)

lemma row_update: "(row t l s)\<lparr>Match_Score := s'\<rparr> = row t l s'" by (simp add: row_def)
lemma row_score: "Match_Score (row t l s) = s" by (simp add: row_def)
lemma row_posted: "Posted (row t l s) = py ''N/A''" by (simp add: row_def)

lemma days_ago_row: "days_ago lib self (row t l s) = 0"
  unfolding days_ago_def parse_date_def row_posted by simp

lemma before_sort_one:
  "before_sort offline_lib worldwide_filter [row ''Data Analyst'' ''New York, NY'' 10] 14 0 [] []
     = Inr [row ''Data Analyst'' ''New York, NY'' (- 30)]"
proof -
  have w: "remote_type worldwide_filter \<in> {py ''Worldwide Remote (Anywhere)'', py ''Worldwide (Anywhere)''}"
    by (simp add: worldwide_filter_def)
  have r: "recency_filter offline_lib worldwide_filter 14 [row ''Data Analyst'' ''New York, NY'' 10]
             = Inr [row ''Data Analyst'' ''New York, NY'' 10]"
    by (simp add: recency_filter_def days_ago_row Let_def)
  have s: "score_filter 0 [row ''Data Analyst'' ''New York, NY'' 10] = [row ''Data Analyst'' ''New York, NY'' 10]"
    by (simp add: score_filter_def Let_def row_score nlargest_def)
  show ?thesis
    unfolding before_sort_def
    by (simp add: keyword_boost_def and_then_def r s worldwide_rows [OF w]
        ny_adjust [OF ny_row] row_update row_score)
qed

text \<open>
  Claim C2 as stated fails: under the worldwide preference a job in ``New York, NY'' that
  enters with the score 10 is returned with the score -30.
\<close>

theorem negative_score_counterexample:
  "apply_all_filters offline_lib worldwide_filter [row ''Data Analyst'' ''New York, NY'' 10] 14 0 [] []
     (Inr [row ''Data Analyst'' ''New York, NY'' (- 30)]) \<and>
   Match_Score (row ''Data Analyst'' ''New York, NY'' (- 30)) < 0"
  by (simp add: apply_all_filters_def before_sort_one sort_values_desc_def row_score)


lemma keyword_boost_upper:
  assumes "keyword_boost lib search_keywords jobs_df = Inr boosted"
    and "\<forall>r \<in> set jobs_df. Match_Score r \<le> 100"
  shows "\<forall>r \<in> set boosted. Match_Score r \<le> 100"
  using assms
  by (auto simp: keyword_boost_def Let_def and_then_def boost_row_def
      split: if_splits sum.splits)

text \<open>
  Claim C2, as the code has it. The score that \<open>match_job\<close> stores lies between 0 and
  100 (for a similarity that is never negative). The keyword boost keeps scores that lie
  between 0 and 100 in that range. Every score that \<open>apply_all_filters\<close> returns is at
  most 100; it is at least -40 when the scores it was given are not negative, and it can
  be negative: the penalty of 40 is not followed by a clamp at 0.
\<close>

theorem score_bounds:
  "((\<forall>a b c. similarity mlib a b = Inr c \<longrightarrow> 0 \<le> c) \<longrightarrow>
      0 \<le> Match_Score (match_job mlib cv j) \<and> Match_Score (match_job mlib cv j) \<le> 100) \<and>
   (keyword_boost lib se jobs_df = Inr boosted \<longrightarrow>
      (\<forall>r \<in> set jobs_df. 0 \<le> Match_Score r \<and> Match_Score r \<le> 100) \<longrightarrow>
      (\<forall>r \<in> set boosted. 0 \<le> Match_Score r \<and> Match_Score r \<le> 100)) \<and>
   (apply_all_filters lib self jobs_df max_days min_score ex se (Inr out) \<longrightarrow>
      (\<forall>r \<in> set out. Match_Score r \<le> 100) \<and>
      ((\<forall>r \<in> set jobs_df. 0 \<le> Match_Score r) \<longrightarrow>
         (\<forall>r \<in> set out. - 40 \<le> Match_Score r)))"
proof (intro conjI impI)
  assume "\<forall>a b c. similarity mlib a b = Inr c \<longrightarrow> 0 \<le> c"
  then show "0 \<le> Match_Score (match_job mlib cv j)" and "Match_Score (match_job mlib cv j) \<le> 100"
    using final_score_bounds [of mlib cv j] by (simp_all add: Match_Score_match_job)
next
  assume kb: "keyword_boost lib se jobs_df = Inr boosted"
    and b: "\<forall>r \<in> set jobs_df. 0 \<le> Match_Score r \<and> Match_Score r \<le> 100"
  have "\<forall>r \<in> set boosted. 0 \<le> Match_Score r"
    using keyword_boost_lower [OF kb, of 0] b by simp
  moreover have "\<forall>r \<in> set boosted. Match_Score r \<le> 100"
    using keyword_boost_upper [OF kb] b by simp
  ultimately show "\<forall>r \<in> set boosted. 0 \<le> Match_Score r \<and> Match_Score r \<le> 100" by simp
next
  assume a: "apply_all_filters lib self jobs_df max_days min_score ex se (Inr out)"
  from filter_score_bounds [OF a] show "\<forall>r \<in> set out. Match_Score r \<le> 100" by simp
  assume "\<forall>r \<in> set jobs_df. 0 \<le> Match_Score r"
  with filter_score_bounds [OF a] show "\<forall>r \<in> set out. - 40 \<le> Match_Score r" by simp
qed

lemma recency_rows:
  assumes "rows \<noteq> []" "\<forall>r \<in> set rows. Posted r = py ''N/A''"
  shows "recency_filter lib self 14 rows = Inr rows"
proof -
  have "\<forall>r \<in> set rows. days_ago lib self r = 0"
    using assms(2) by (simp add: days_ago_def parse_date_def)
  then have "filter (\<lambda>r. days_ago lib self r \<le> 14) rows = rows"
    and "filter (\<lambda>r. days_ago lib self r \<le> 45) rows = rows"
    by (simp_all add: filter_id_conv)
  then show ?thesis using assms(1) by (simp add: recency_filter_def Let_def)
qed

lemma no_keywords:
  "keyword_boost lib [] rows = Inr rows" "exclude_loop lib [] rows = Inr rows"
  by (simp_all add: keyword_boost_def)

lemma before_sort_two:
  "before_sort offline_lib worldwide_filter
     [row ''Data Analyst'' ''New York, NY'' 90, row ''Data Analyst'' ''Remote - Worldwide'' 90]
     14 0 [] []
   = Inr [row ''Data Analyst'' ''New York, NY'' 50, row ''Data Analyst'' ''Remote - Worldwide'' 100]"
proof -
  let ?rows = "[row ''Data Analyst'' ''New York, NY'' 90, row ''Data Analyst'' ''Remote - Worldwide'' 90]"
  have w: "remote_type worldwide_filter \<in> {py ''Worldwide Remote (Anywhere)'', py ''Worldwide (Anywhere)''}"
    by (simp add: worldwide_filter_def)
  have r: "recency_filter offline_lib worldwide_filter 14 ?rows = Inr ?rows"
    by (rule recency_rows) (simp_all add: row_posted)
  have s: "score_filter 0 ?rows = ?rows"
    by (simp add: score_filter_def Let_def row_score nlargest_def)
  show ?thesis
    unfolding before_sort_def
    by (simp add: no_keywords and_then_def r s worldwide_rows [OF w]
        ny_adjust [OF ny_row] ww_adjust [OF ww_row] row_update row_score)
qed

lemma two_rows_outcome:
  "apply_all_filters offline_lib worldwide_filter
     [row ''Data Analyst'' ''New York, NY'' 90, row ''Data Analyst'' ''Remote - Worldwide'' 90]
     14 0 [] []
     (Inr [row ''Data Analyst'' ''Remote - Worldwide'' 100, row ''Data Analyst'' ''New York, NY'' 50])"
  by (simp add: apply_all_filters_def before_sort_two sort_values_desc_def row_score)

text \<open>
  Claim C7 as stated fails: two jobs that differ in their location only and enter with the
  score 90 end with 100 and 50, a gap of 50.
\<close>

theorem worldwide_gap_counterexample:
  "apply_all_filters offline_lib worldwide_filter
     [row ''Data Analyst'' ''New York, NY'' 90, row ''Data Analyst'' ''Remote - Worldwide'' 90]
     14 0 [] []
     (Inr [row ''Data Analyst'' ''Remote - Worldwide'' 100, row ''Data Analyst'' ''New York, NY'' 50]) \<and>
   Match_Score (row ''Data Analyst'' ''Remote - Worldwide'' 100)
     - Match_Score (row ''Data Analyst'' ''New York, NY'' 50) < 70"
  using two_rows_outcome by (simp add: row_score)

theorem worldwide_gap_witness:
  "Match_Score (clip_upper (location_filter worldwide_filter
      [row ''Data Analyst'' ''New York, NY'' 60, row ''Data Analyst'' ''Remote - Worldwide'' 60]) ! 1)
   - Match_Score (clip_upper (location_filter worldwide_filter
      [row ''Data Analyst'' ''New York, NY'' 60, row ''Data Analyst'' ''Remote - Worldwide'' 60]) ! 0)
   = 70"
proof -
  let ?rows = "[row ''Data Analyst'' ''New York, NY'' 60, row ''Data Analyst'' ''Remote - Worldwide'' 60]"
  have w: "remote_type worldwide_filter \<in> {py ''Worldwide Remote (Anywhere)'', py ''Worldwide (Anywhere)''}"
    by (simp add: worldwide_filter_def)
  have "Match_Score (clip_upper (location_filter worldwide_filter ?rows) ! 1)
           - Match_Score (clip_upper (location_filter worldwide_filter ?rows) ! 0) = min 70 (140 - 60)"
    using worldwide_gap [OF w, of 0 ?rows 1 60] by (simp add: ny_row ww_row row_score)
  then show ?thesis by simp
qed

theorem score_bounds_witness:
  "apply_all_filters offline_lib worldwide_filter [row ''Data Analyst'' ''New York, NY'' 10] 14 0 [] []
     (Inr [row ''Data Analyst'' ''New York, NY'' (- 30)]) \<and>
   - 40 \<le> Match_Score (row ''Data Analyst'' ''New York, NY'' (- 30)) \<and>
   Match_Score (row ''Data Analyst'' ''New York, NY'' (- 30)) \<le> 100"
proof -
  have a: "apply_all_filters offline_lib worldwide_filter
             [row ''Data Analyst'' ''New York, NY'' 10] 14 0 [] []
             (Inr [row ''Data Analyst'' ''New York, NY'' (- 30)])"
    by (simp add: apply_all_filters_def before_sort_one sort_values_desc_def)
  have n: "\<forall>r \<in> set [row ''Data Analyst'' ''New York, NY'' 10]. 0 \<le> Match_Score r"
    by (simp add: row_score)
  have "(\<forall>r \<in> set [row ''Data Analyst'' ''New York, NY'' (- 30)]. Match_Score r \<le> 100) \<and>
        (\<forall>r \<in> set [row ''Data Analyst'' ''New York, NY'' (- 30)]. - 40 \<le> Match_Score r)"
    using a n
      score_bounds [where lib = offline_lib and self = worldwide_filter
        and jobs_df = "[row ''Data Analyst'' ''New York, NY'' 10]" and max_days = 14
        and min_score = 0 and ex = "[]" and se = "[]"
        and out = "[row ''Data Analyst'' ''New York, NY'' (- 30)]"]
    by blast
  with a show ?thesis by simp
qed

lemma five_rows_posted: "\<forall>r \<in> set five_rows. Posted r = py ''N/A''"
  by (simp add: five_rows_def row_def)

theorem at_least_five_witness:
  "(\<exists>out. apply_all_filters offline_lib all_remote_filter five_rows 14 50 [] [] (Inr out)) \<and>
   \<not> apply_all_filters offline_lib all_remote_filter five_rows 14 50 [] [] (Inr []) \<and>
   length five_rows = 5"
proof -
  have ne: "five_rows \<noteq> []" by (simp add: five_rows_def)
  have len: "5 \<le> length five_rows" by (simp add: five_rows_def)
  have kb: "keyword_boost offline_lib [] five_rows = Inr five_rows" by (rule no_keywords(1))
  have ex: "exclude_loop offline_lib [] five_rows = Inr five_rows" by (rule no_keywords(2))
  have rf: "recency_filter offline_lib all_remote_filter 14 five_rows = Inr five_rows"
    by (rule recency_rows [OF ne five_rows_posted])
  note t = at_least_five [OF kb ex rf len, of 50]
  from t have "\<not> apply_all_filters offline_lib all_remote_filter five_rows 14 50 [] [] (Inr [])"
    by fastforce
  with t show ?thesis by (simp add: five_rows_def)
qed




lemma exclude_loop_error:
  assumes "\<forall>k \<in> set pre. lower (strip k) = [] \<or>
             (\<exists>c. re_compile lib ([92, 98] @ lower (strip k) @ [92, 98]) = Inr c)"
    and "lower (strip kw) \<noteq> []"
    and "re_compile lib ([92, 98] @ lower (strip kw) @ [92, 98]) = Inl e"
  shows "exclude_loop lib (pre @ kw # post) jobs_df = Inl e"
  using assms
proof (induction pre arbitrary: jobs_df)
  case Nil
  then show ?case by (simp add: exclude_pattern_def and_then_def)
next
  case (Cons k pre)
  then have IH: "\<And>rows. exclude_loop lib (pre @ kw # post) rows = Inl e" by simp
  from Cons.prems(1) have "lower (strip k) = [] \<or>
       (\<exists>c. re_compile lib ([92, 98] @ lower (strip k) @ [92, 98]) = Inr c)" by simp
  then show ?case
    by (auto simp: exclude_pattern_def and_then_def Let_def IH)
qed

text \<open>
  Claim C10. The pattern of the exclusion stage is the stripped, lower-cased keyword as the
  user typed it, between two \<open>\b\<close>, with no escaping. On a frame with rows, when the
  keyword boost raises nothing and the keywords before \<open>kw\<close> are blank or compile, a
  non-blank keyword \<open>kw\<close> whose pattern \<open>re.compile\<close> rejects makes
  \<open>apply_all_filters\<close> raise that error: it is the only outcome.
\<close>

theorem exclusion_regex_error:
  assumes ne: "jobs_df \<noteq> []"
    and kb: "keyword_boost lib se jobs_df = Inr boosted"
    and pre: "\<forall>k \<in> set pre. lower (strip k) = [] \<or>
                (\<exists>c. re_compile lib ([92, 98] @ lower (strip k) @ [92, 98]) = Inr c)"
    and kw: "lower (strip kw) \<noteq> []"
    and err: "re_compile lib ([92, 98] @ lower (strip kw) @ [92, 98]) = Inl e"
  shows "apply_all_filters lib self jobs_df max_days min_score (pre @ kw # post) se outcome
           \<longleftrightarrow> outcome = Inl e"
  using ne by (simp add: apply_all_filters_def before_sort_def and_then_def kb
      exclude_loop_error [OF pre kw err])

theorem exclusion_regex_error_witness:
  "apply_all_filters offline_lib all_remote_filter [row ''Data Analyst'' ''Remote'' 50] 14 0
     [py '' '', py '' ( ''] [] (Inl (ReError [92, 98, 40, 92, 98]))"
proof -
  have s1: "lower (strip (py '' '')) = []" by (simp add: strip_def is_space_def lower_def)
  have s2: "lower (strip (py '' ( '')) = py ''(''"
    by (simp add: strip_def is_space_def lower_def lower_cp_def)
  have pre: "\<forall>k \<in> set [py '' '']. lower (strip k) = [] \<or>
                (\<exists>c. re_compile offline_lib ([92, 98] @ lower (strip k) @ [92, 98]) = Inr c)"
    using s1 by simp
  have kw: "lower (strip (py '' ( '')) \<noteq> []" unfolding s2 by simp
  have err: "re_compile offline_lib ([92, 98] @ lower (strip (py '' ( '')) @ [92, 98])
               = Inl (ReError [92, 98, 40, 92, 98])"
    unfolding s2 by (simp add: offline_lib_def)
  have ne: "[row ''Data Analyst'' ''Remote'' 50] \<noteq> []" by simp
  from exclusion_regex_error [OF ne no_keywords(1) pre kw err,
      of all_remote_filter 14 0 "[]" "Inl (ReError [92, 98, 40, 92, 98])"]
  show ?thesis by simp
qed


end
